theory Spec2Isabelle
  imports Main
begin

section \<open>Values of the client program\<close>

text \<open>
  The client is the Axios set-up of the front end, the module that
  \<^verbatim>\<open>context/AuthContext.js\<close> imports as \<^verbatim>\<open>../services/api\<close> (in the sources it is the
  part of \<^verbatim>\<open>components/common/Modal.js\<close> headed ``API Service Configuration''),
  together with the session restore of \<^verbatim>\<open>AuthContext.js\<close>.  All state it touches is the
  browser's \<^verbatim>\<open>localStorage\<close>, the address \<^verbatim>\<open>window.location.href\<close> and the network.
  \<open>api\<close>, \<open>on_rejected\<close>, \<open>login\<close> and \<open>checkAuth\<close> below are these functions run from
  start to end with nothing else running in between, one caller at a time.  The place
  where the response handler waits for the network with the store half read is modelled
  on its own, by \<open>on_rejected_start\<close> and \<open>on_rejected_resume\<close>.

  \<^verbatim>\<open>localStorage\<close> maps string keys to string values; \<^verbatim>\<open>getItem\<close> yields \<^verbatim>\<open>null\<close>
  (here \<open>None\<close>) for a key that is not there.
\<close>

definition getItem :: "(string \<rightharpoonup> string) \<Rightarrow> string \<Rightarrow> string option" where
  "getItem st k = st k"

definition setItem :: "(string \<rightharpoonup> string) \<Rightarrow> string \<Rightarrow> string \<Rightarrow> (string \<rightharpoonup> string)" where
  "setItem st k v = st(k \<mapsto> v)"

definition removeItem :: "(string \<rightharpoonup> string) \<Rightarrow> string \<Rightarrow> (string \<rightharpoonup> string)" where
  "removeItem st k = st(k := None)"

text \<open>
  The test \<^verbatim>\<open>if (token)\<close> on the result of \<^verbatim>\<open>getItem\<close>: \<^verbatim>\<open>null\<close> and the empty
  string are falsy, every other string is truthy.
\<close>

definition truthy :: "string option \<Rightarrow> bool" where
  "truthy v = (case v of None \<Rightarrow> False | Some s \<Rightarrow> s \<noteq> [])"

text \<open>
  The body of a server reply, \<^verbatim>\<open>response.data\<close>: either \<^verbatim>\<open>null\<close>/\<^verbatim>\<open>undefined\<close>, on
  which a destructuring \<^verbatim>\<open>const { access } = response.data\<close> throws a \<^verbatim>\<open>TypeError\<close>, or a
  JSON object.  The fields the client reads are tokens, which the server issues as
  strings; a field that is missing reads as \<^verbatim>\<open>undefined\<close> (here \<open>None\<close>).
\<close>

datatype body = Nullish | Obj "string \<rightharpoonup> string"

text \<open>
  \<^verbatim>\<open>setItem\<close> and a template literal turn their argument into a string: a string stays as
  it is, a field that was \<^verbatim>\<open>undefined\<close> becomes the text \<^verbatim>\<open>undefined\<close>.
\<close>

definition String :: "string option \<Rightarrow> string" where
  "String v = (case v of None \<Rightarrow> ''undefined'' | Some s \<Rightarrow> s)"

text \<open>
  An Axios request descriptor.  \<open>retry\<close> is the property \<^verbatim>\<open>_retry\<close>, which is absent
  (falsy) on a descriptor until the response interceptor sets it.
\<close>

record config =
  http_method :: string
  url :: string
  payload :: "(string \<times> string) list"
  headers :: "string \<rightharpoonup> string"
  retry :: bool

record response =
  status :: nat
  data :: body

text \<open>
  A rejection: an Axios error carries the descriptor of the request (\<^verbatim>\<open>error.config\<close>)
  and, when the server answered at all, the response; the other two are the exceptions
  thrown by a destructuring of \<^verbatim>\<open>null\<close> and by \<^verbatim>\<open>JSON.parse\<close>.
\<close>

datatype error = AxiosError config "response option" | TypeError | SyntaxError

text \<open>
  The network.  A call goes out either through the instance \<^verbatim>\<open>api\<close>, whose interceptors
  run, or through the bare \<^verbatim>\<open>axios\<close> object, which has none.  The server is opaque: its
  answer to a call may depend on everything sent so far, so it is a function of the log of
  calls (the last entry is the call being answered).  Every run of the single-threaded
  client against any server is a run against such a function.
\<close>

datatype call = Via_api config | Via_axios config

datatype reply = Answer nat body | No_answer

type_synonym server = "call list \<Rightarrow> reply"

record world =
  localStorage :: "string \<rightharpoonup> string"
  location_href :: string
  wire :: "call list"

text \<open>Axios resolves a reply whose status is 2xx and rejects every other one.\<close>

definition validateStatus :: "nat \<Rightarrow> bool" where
  "validateStatus s = (200 \<le> s \<and> s < 300)"

text \<open>
  \<^verbatim>\<open>process.env.REACT_APP_API_URL || 'http://localhost:8000/api'\<close>, with the variable
  unset.
\<close>

definition API_URL :: string where
  "API_URL = ''http://localhost:8000/api''"

section \<open>The interceptors\<close>

text \<open>
  The request interceptor (\<^verbatim>\<open>api.interceptors.request.use\<close>): reads the access token and,
  if it is truthy, sets the \<^verbatim>\<open>Authorization\<close> header.
\<close>

definition request_interceptor :: "(string \<rightharpoonup> string) \<Rightarrow> config \<Rightarrow> config" where
  "request_interceptor st config =
     (case getItem st ''access_token'' of
        None \<Rightarrow> config
      | Some token \<Rightarrow>
          if truthy (Some token)
          then config\<lparr>headers := (headers config)(''Authorization'' \<mapsto> ''Bearer '' @ token)\<rparr>
          else config)"

text \<open>\<^verbatim>\<open>error.response?.status === 401\<close>\<close>

definition status_401 :: "response option \<Rightarrow> bool" where
  "status_401 r = (case r of None \<Rightarrow> False | Some resp \<Rightarrow> status resp = 401)"

text \<open>
  The \<^verbatim>\<open>catch (refreshError)\<close> block of the response interceptor.
\<close>

definition refresh_failed :: "world \<Rightarrow> error \<Rightarrow> world \<times> (error + response)" where
  "refresh_failed w refreshError =
     (w\<lparr>localStorage :=
          removeItem (removeItem (removeItem (localStorage w) ''access_token'')
            ''refresh_token'') ''user'',
        location_href := ''/login''\<rparr>,
      Inl refreshError)"

text \<open>The descriptor of \<^verbatim>\<open>axios.post(`${API_URL}/auth/refresh/`, { refresh: refreshToken })\<close>.\<close>

definition refresh_request :: "string \<Rightarrow> config" where
  "refresh_request refreshToken =
     \<lparr>http_method = ''post'', url = API_URL @ ''/auth/refresh/'',
      payload = [(''refresh'', refreshToken)], headers = Map.empty, retry = False\<rparr>"

text \<open>
  What Axios makes of the server's reply to a request it has sent: a promise that
  resolves with the response, or rejects with an error holding the descriptor and, if
  there was an answer, the response.
\<close>

definition dispatchRequest :: "config \<Rightarrow> reply \<Rightarrow> error + response" where
  "dispatchRequest sent rep =
     (case rep of
        No_answer \<Rightarrow> Inl (AxiosError sent None)
      | Answer s d \<Rightarrow>
          if validateStatus s then Inr \<lparr>status = s, data = d\<rparr>
          else Inl (AxiosError sent (Some \<lparr>status = s, data = d\<rparr>)))"

text \<open>
  \<open>api\<close> is a call through the instance: request interceptor, the wire, then the
  response interceptor, whose success handler returns the response as it is and whose
  error handler is \<open>on_rejected\<close>.  The handler sets \<^verbatim>\<open>_retry\<close> on the descriptor held by
  the error, so the error it hands back carries the flag.  \<^verbatim>\<open>return api(originalRequest)\<close>
  is not awaited inside the \<^verbatim>\<open>try\<close>, so a rejection of the retry is not caught there: it
  goes to the caller.  A custom property of a descriptor such as \<^verbatim>\<open>_retry\<close> survives
  Axios's merge of the descriptor with the instance defaults.
\<close>

function api :: "server \<Rightarrow> world \<Rightarrow> config \<Rightarrow> world \<times> (error + response)"
  and on_rejected :: "server \<Rightarrow> world \<Rightarrow> error \<Rightarrow> world \<times> (error + response)"
where
  "api srv w config =
     (let sent = request_interceptor (localStorage w) config;
          w1 = w\<lparr>wire := wire w @ [Via_api sent]\<rparr>
      in case dispatchRequest sent (srv (wire w1)) of
           Inr response \<Rightarrow> (w1, Inr response)
         | Inl error \<Rightarrow> on_rejected srv w1 error)"
| "on_rejected srv w (AxiosError originalRequest resp) =
     (if status_401 resp \<and> \<not> retry originalRequest then
        (let originalRequest = originalRequest\<lparr>retry := True\<rparr>;
             refreshToken = getItem (localStorage w) ''refresh_token''
         in case refreshToken of
              None \<Rightarrow> (w, Inl (AxiosError originalRequest resp))
            | Some r \<Rightarrow>
                if truthy (Some r) then
                  (let w1 = w\<lparr>wire := wire w @ [Via_axios (refresh_request r)]\<rparr>
                   in case dispatchRequest (refresh_request r) (srv (wire w1)) of
                        Inl refreshError \<Rightarrow> refresh_failed w1 refreshError
                      | Inr response \<Rightarrow>
                          (case data response of
                             Nullish \<Rightarrow> refresh_failed w1 TypeError
                           | Obj props \<Rightarrow>
                               (let access = props ''access'';
                                    w2 = w1\<lparr>localStorage :=
                                           setItem (localStorage w1) ''access_token'' (String access)\<rparr>;
                                    originalRequest = originalRequest
                                      \<lparr>headers := (headers originalRequest)
                                         (''Authorization'' \<mapsto> ''Bearer '' @ String access)\<rparr>
                                in api srv w2 originalRequest)))
                else (w, Inl (AxiosError originalRequest resp)))
      else (w, Inl (AxiosError originalRequest resp)))"
| "on_rejected srv w TypeError = (w, Inl TypeError)"
| "on_rejected srv w SyntaxError = (w, Inl SyntaxError)"
  by pat_completeness auto

termination
  by (relation "measure (\<lambda>x. case x of
          Inl (srv, w, c) \<Rightarrow> (if retry c then 1 else 3)
        | Inr (srv, w, e) \<Rightarrow>
            (case e of AxiosError c r \<Rightarrow> (if retry c then 0 else 2) | _ \<Rightarrow> 0))")
     (auto simp: request_interceptor_def dispatchRequest_def
           split: option.splits reply.splits if_splits)

declare api.simps [simp del] on_rejected.simps [simp del]

text \<open>
  \<open>on_rejected\<close> above is the handler run with nothing else running while it waits: the
  answer to its refresh call is taken at once.  The handler is an \<^verbatim>\<open>async\<close> function, and
  at \<^verbatim>\<open>await axios.post(...)\<close> it is suspended until the answer arrives; other handlers,
  \<^verbatim>\<open>logout\<close> or \<^verbatim>\<open>login\<close> can run in between and change the store.  The two halves of
  the handler around that \<^verbatim>\<open>await\<close> are \<open>on_rejected_start\<close>, which runs up to the sending
  of the refresh call and either settles at once or is suspended, holding the flagged
  descriptor and the refresh token it has read, and \<open>on_rejected_resume\<close>, which runs from
  the arrival of the answer, in the world as it is then.
\<close>

datatype pending = Refreshing config string

datatype started = Settled "error + response" | Suspended pending

definition on_rejected_start :: "world \<Rightarrow> error \<Rightarrow> world \<times> started" where
  "on_rejected_start w error =
     (case error of
        AxiosError originalRequest resp \<Rightarrow>
          if status_401 resp \<and> \<not> retry originalRequest then
            (let originalRequest = originalRequest\<lparr>retry := True\<rparr>;
                 refreshToken = getItem (localStorage w) ''refresh_token''
             in case refreshToken of
                  None \<Rightarrow> (w, Settled (Inl (AxiosError originalRequest resp)))
                | Some r \<Rightarrow>
                    if truthy (Some r) then
                      (w\<lparr>wire := wire w @ [Via_axios (refresh_request r)]\<rparr>,
                       Suspended (Refreshing originalRequest r))
                    else (w, Settled (Inl (AxiosError originalRequest resp))))
          else (w, Settled (Inl (AxiosError originalRequest resp)))
      | TypeError \<Rightarrow> (w, Settled (Inl TypeError))
      | SyntaxError \<Rightarrow> (w, Settled (Inl SyntaxError)))"

definition on_rejected_resume ::
  "server \<Rightarrow> world \<Rightarrow> pending \<Rightarrow> reply \<Rightarrow> world \<times> (error + response)" where
  "on_rejected_resume srv w p answer =
     (case p of
        Refreshing originalRequest r \<Rightarrow>
          (case dispatchRequest (refresh_request r) answer of
             Inl refreshError \<Rightarrow> refresh_failed w refreshError
           | Inr response \<Rightarrow>
               (case data response of
                  Nullish \<Rightarrow> refresh_failed w TypeError
                | Obj props \<Rightarrow>
                    (let access = props ''access'';
                         w2 = w\<lparr>localStorage :=
                                setItem (localStorage w) ''access_token'' (String access)\<rparr>;
                         originalRequest = originalRequest
                           \<lparr>headers := (headers originalRequest)
                              (''Authorization'' \<mapsto> ''Bearer '' @ String access)\<rparr>
                     in api srv w2 originalRequest))))"

section \<open>Authentication functions\<close>

text \<open>
  \<^verbatim>\<open>api.post(url, data)\<close> and \<^verbatim>\<open>api.get(url)\<close>: a fresh descriptor with the instance's
  default header, sent through the instance.
\<close>

definition post_config :: "string \<Rightarrow> (string \<times> string) list \<Rightarrow> config" where
  "post_config path body_fields =
     \<lparr>http_method = ''post'', url = path, payload = body_fields,
      headers = [''Content-Type'' \<mapsto> ''application/json''], retry = False\<rparr>"

definition get_config :: "string \<Rightarrow> config" where
  "get_config path =
     \<lparr>http_method = ''get'', url = path, payload = [],
      headers = [''Content-Type'' \<mapsto> ''application/json''], retry = False\<rparr>"

definition api_post :: "server \<Rightarrow> world \<Rightarrow> string \<Rightarrow> (string \<times> string) list \<Rightarrow> world \<times> (error + response)" where
  "api_post srv w path body_fields = api srv w (post_config path body_fields)"

definition api_get :: "server \<Rightarrow> world \<Rightarrow> string \<Rightarrow> world \<times> (error + response)" where
  "api_get srv w path = api srv w (get_config path)"

text \<open>
  \<^verbatim>\<open>login\<close>.  \<^verbatim>\<open>JSON.stringify\<close> is a built-in of the language and a parameter here
  (\<open>stringify\<close>; \<open>None\<close> is the result \<^verbatim>\<open>undefined\<close>).  An \<^verbatim>\<open>await\<close> of a rejected promise
  throws, which ends \<^verbatim>\<open>login\<close> with that error.
\<close>

definition login ::
  "(body \<Rightarrow> string option) \<Rightarrow> server \<Rightarrow> world \<Rightarrow> string \<Rightarrow> string \<Rightarrow> world \<times> (error + body)" where
  "login stringify srv w username password =
     (case api_post srv w ''/auth/login/'' [(''username'', username), (''password'', password)] of
        (w1, Inl error) \<Rightarrow> (w1, Inl error)
      | (w1, Inr response) \<Rightarrow>
          (case data response of
             Nullish \<Rightarrow> (w1, Inl TypeError)
           | Obj props \<Rightarrow>
               (let access = props ''access'';
                    refresh = props ''refresh'';
                    w2 = w1\<lparr>localStorage :=
                           setItem (setItem (localStorage w1) ''access_token'' (String access))
                             ''refresh_token'' (String refresh)\<rparr>
                in case api_get srv w2 ''/auth/user/'' of
                     (w3, Inl error) \<Rightarrow> (w3, Inl error)
                   | (w3, Inr userResponse) \<Rightarrow>
                       (w3\<lparr>localStorage :=
                             setItem (localStorage w3) ''user''
                               (String (stringify (data userResponse)))\<rparr>,
                        Inr (data userResponse)))))"

definition logout :: "world \<Rightarrow> world" where
  "logout w =
     w\<lparr>localStorage :=
         removeItem (removeItem (removeItem (localStorage w) ''access_token'')
           ''refresh_token'') ''user''\<rparr>"

definition getCurrentUser :: "server \<Rightarrow> world \<Rightarrow> world \<times> (error + body)" where
  "getCurrentUser srv w =
     (case api_get srv w ''/auth/user/'' of
        (w1, Inl error) \<Rightarrow> (w1, Inl error)
      | (w1, Inr response) \<Rightarrow> (w1, Inr (data response)))"

section \<open>Session restore\<close>

text \<open>
  The state of \<^verbatim>\<open>AuthProvider\<close>: \<^verbatim>\<open>user\<close> (\<^verbatim>\<open>null\<close> is \<open>Nullish\<close>) and \<^verbatim>\<open>loading\<close>.
\<close>

record auth =
  user :: body
  loading :: bool

text \<open>The provider's own \<^verbatim>\<open>logout\<close>: \<^verbatim>\<open>apiLogout(); setUser(null)\<close>.\<close>

definition provider_logout :: "world \<times> auth \<Rightarrow> world \<times> auth" where
  "provider_logout wa = (logout (fst wa), (snd wa)\<lparr>user := Nullish\<rparr>)"

text \<open>
  The body of the outer \<^verbatim>\<open>try\<close> of \<^verbatim>\<open>checkAuth\<close>.  \<^verbatim>\<open>JSON.parse\<close> is a parameter
  (\<open>parse\<close>; \<open>None\<close> is a thrown \<^verbatim>\<open>SyntaxError\<close>).  The inner \<^verbatim>\<open>try\<close> catches every failure
  of \<^verbatim>\<open>getCurrentUser\<close> and logs out.
\<close>

definition checkAuth_try ::
  "(body \<Rightarrow> string option) \<Rightarrow> (string \<Rightarrow> body option) \<Rightarrow> server \<Rightarrow> world \<times> auth
     \<Rightarrow> (world \<times> auth) \<times> (error + unit)" where
  "checkAuth_try stringify parse srv wa =
     (let w = fst wa; a = snd wa;
          token = getItem (localStorage w) ''access_token'';
          storedUser = getItem (localStorage w) ''user''
      in case storedUser of
           None \<Rightarrow> (wa, Inr ())
         | Some text \<Rightarrow>
             if truthy token \<and> truthy (Some text) then
               (case parse text of
                  None \<Rightarrow> (wa, Inl SyntaxError)
                | Some parsed \<Rightarrow>
                    (let a1 = a\<lparr>user := parsed\<rparr>
                     in case getCurrentUser srv w of
                          (w1, Inr currentUser) \<Rightarrow>
                            ((w1\<lparr>localStorage :=
                                   setItem (localStorage w1) ''user''
                                     (String (stringify currentUser))\<rparr>,
                              a1\<lparr>user := currentUser\<rparr>),
                             Inr ())
                        | (w1, Inl error) \<Rightarrow> (provider_logout (w1, a1), Inr ())))
             else (wa, Inr ()))"

text \<open>
  \<^verbatim>\<open>checkAuth\<close>: the outer \<^verbatim>\<open>catch\<close> only logs the error, \<^verbatim>\<open>finally\<close> clears
  \<^verbatim>\<open>loading\<close>.  The second component is how the promise of \<^verbatim>\<open>checkAuth\<close> settles.
\<close>

definition checkAuth ::
  "(body \<Rightarrow> string option) \<Rightarrow> (string \<Rightarrow> body option) \<Rightarrow> server \<Rightarrow> world \<times> auth
     \<Rightarrow> (world \<times> auth) \<times> (error + unit)" where
  "checkAuth stringify parse srv wa =
     (case checkAuth_try stringify parse srv wa of
        ((w, a), Inl error) \<Rightarrow> ((w, a\<lparr>loading := False\<rparr>), Inr ())
      | ((w, a), Inr u) \<Rightarrow> ((w, a\<lparr>loading := False\<rparr>), Inr ()))"

section \<open>Notions used in the statements\<close>

text \<open>
  The descriptor the error handler re-issues after a refresh that returned the access
  token \<open>a\<close>: the original one with \<^verbatim>\<open>_retry\<close> set and the \<^verbatim>\<open>Authorization\<close> header
  replaced.
\<close>

definition retried :: "config \<Rightarrow> string \<Rightarrow> config" where
  "retried c a =
     c\<lparr>retry := True, headers := (headers c)(''Authorization'' \<mapsto> ''Bearer '' @ a)\<rparr>"

text \<open>The refresh calls in a log: the posts to the refresh endpoint made with bare \<^verbatim>\<open>axios\<close>.\<close>

fun is_refresh :: "call \<Rightarrow> bool" where
  "is_refresh (Via_axios c) = (url c = API_URL @ ''/auth/refresh/'')"
| "is_refresh (Via_api c) = False"

definition refresh_calls :: "call list \<Rightarrow> nat" where
  "refresh_calls log = length (filter is_refresh log)"

text \<open>
  The two token writes of \<^verbatim>\<open>login\<close>, and the descriptors of its two calls as they leave
  the request interceptor.
\<close>

definition store_tokens :: "(string \<rightharpoonup> string) \<Rightarrow> (string \<rightharpoonup> string) \<Rightarrow> (string \<rightharpoonup> string)" where
  "store_tokens st props =
     setItem (setItem st ''access_token'' (String (props ''access'')))
       ''refresh_token'' (String (props ''refresh''))"

definition login_call :: "(string \<rightharpoonup> string) \<Rightarrow> string \<Rightarrow> string \<Rightarrow> config" where
  "login_call st username password =
     request_interceptor st
       (post_config ''/auth/login/'' [(''username'', username), (''password'', password)])"

definition profile_call :: "(string \<rightharpoonup> string) \<Rightarrow> config" where
  "profile_call st = request_interceptor st (get_config ''/auth/user/'')"


text \<open>
  The three removals of \<^verbatim>\<open>logout\<close> and of the \<^verbatim>\<open>catch\<close> block, and the stores in which
  neither token entry is the empty string (there an entry is present exactly when the
  code's test finds it truthy).
\<close>

definition clear_session :: "(string \<rightharpoonup> string) \<Rightarrow> (string \<rightharpoonup> string)" where
  "clear_session st =
     removeItem (removeItem (removeItem st ''access_token'') ''refresh_token'') ''user''"

definition no_empty_entry :: "(string \<rightharpoonup> string) \<Rightarrow> bool" where
  "no_empty_entry st =
     (getItem st ''access_token'' \<noteq> Some [] \<and> getItem st ''refresh_token'' \<noteq> Some [])"

section \<open>Example data\<close>

text \<open>A list request of the resource client, and the answer to an expired token.\<close>

definition list_units :: config where
  "list_units = get_config ''/units/''"

definition unauthorized :: response where
  "unauthorized = \<lparr>status = 401, data = Nullish\<rparr>"

definition server_error :: response where
  "server_error = \<lparr>status = 500, data = Nullish\<rparr>"

text \<open>A browser with a session stored, and one with nothing stored.\<close>

definition session_A1 :: world where
  "session_A1 =
     \<lparr>localStorage = [''access_token'' \<mapsto> ''A1'', ''refresh_token'' \<mapsto> ''R1'', ''user'' \<mapsto> ''{}''],
      location_href = ''/dashboard'', wire = []\<rparr>"

definition fresh_browser :: world where
  "fresh_browser = \<lparr>localStorage = Map.empty, location_href = ''/login'', wire = []\<rparr>"

text \<open>A browser that holds an access token and a profile but no refresh token.\<close>

definition access_only :: world where
  "access_only =
     \<lparr>localStorage = [''access_token'' \<mapsto> ''A1'', ''user'' \<mapsto> ''{}''],
      location_href = ''/dashboard'', wire = []\<rparr>"

text \<open>
  Servers.  The first answers a refresh with the new token \<^verbatim>\<open>A2\<close> and every other call
  with 401, also the retried one; the second rejects everything with 401; the third
  accepts a login, serves the profile \<^verbatim>\<open>{}\<close> once and is out of order from the third call
  on; the fourth accepts a login and fails on everything else.
\<close>

definition server_expiring :: server where
  "server_expiring log =
     (case last log of
        Via_axios c \<Rightarrow> Answer 200 (Obj [''access'' \<mapsto> ''A2''])
      | Via_api c \<Rightarrow> Answer 401 Nullish)"

definition server_revoked :: server where
  "server_revoked log = Answer 401 Nullish"

definition server_going_down :: server where
  "server_going_down log =
     (if length log = 1 then Answer 200 (Obj [''access'' \<mapsto> ''A1'', ''refresh'' \<mapsto> ''R1''])
      else if length log = 2 then Answer 200 (Obj Map.empty)
      else Answer 500 Nullish)"

definition server_without_profile :: server where
  "server_without_profile log =
     (if length log = 1 then Answer 200 (Obj [''access'' \<mapsto> ''A1'', ''refresh'' \<mapsto> ''R1''])
      else Answer 500 Nullish)"

text \<open>
  A server that accepts a login and afterwards serves the profile \<^verbatim>\<open>{}\<close> to every call;
  and the state of \<^verbatim>\<open>AuthProvider\<close> when it mounts (\<^verbatim>\<open>useState(null)\<close>,
  \<^verbatim>\<open>useState(true)\<close>).
\<close>

definition server_up :: server where
  "server_up log =
     (if length log = 1 then Answer 200 (Obj [''access'' \<mapsto> ''A1'', ''refresh'' \<mapsto> ''R1''])
      else Answer 200 (Obj Map.empty))"

definition initial_auth :: auth where
  "initial_auth = \<lparr>user = Nullish, loading = True\<rparr>"

text \<open>
  A server that answers a login with no content; one that accepts a login and rejects
  everything after it with 401, the refresh too; and one that accepts a login, rejects
  the profile call with 401, issues \<^verbatim>\<open>A2\<close> on the refresh and is out of order after that.
\<close>

definition server_no_content :: server where
  "server_no_content log = Answer 204 Nullish"

definition server_revoking :: server where
  "server_revoking log =
     (if length log = 1 then Answer 200 (Obj [''access'' \<mapsto> ''A1'', ''refresh'' \<mapsto> ''R1''])
      else Answer 401 Nullish)"

definition server_refreshing_then_down :: server where
  "server_refreshing_then_down log =
     (if length log = 1 then Answer 200 (Obj [''access'' \<mapsto> ''A1'', ''refresh'' \<mapsto> ''R1''])
      else if length log = 2 then Answer 401 Nullish
      else if length log = 3 then Answer 200 (Obj [''access'' \<mapsto> ''A2''])
      else Answer 500 Nullish)"

text \<open>
  The browser \<open>session_A1\<close> while a handler waits for the answer to its refresh call.
\<close>

definition waiting :: world where
  "waiting = session_A1\<lparr>wire := [Via_axios (refresh_request ''R1'')]\<rparr>"

text \<open>The tokens the example servers issue, and the browser after the login call.\<close>

definition issued_tokens :: "string \<rightharpoonup> string" where
  "issued_tokens = [''access'' \<mapsto> ''A1'', ''refresh'' \<mapsto> ''R1'']"

definition after_login_call :: world where
  "after_login_call =
     fresh_browser\<lparr>wire := [Via_api (login_call Map.empty ''alice'' ''secret'')]\<rparr>"



text \<open>
  The browser after \<^verbatim>\<open>alice\<close> has logged in from \<open>fresh_browser\<close> and got the profile
  \<^verbatim>\<open>{}\<close>, and the same browser after one more profile call.
\<close>

definition logged_in :: world where
  "logged_in =
     fresh_browser
       \<lparr>wire := [Via_api (login_call Map.empty ''alice'' ''secret''),
                  Via_api (profile_call (store_tokens Map.empty issued_tokens))],
         localStorage := setItem (store_tokens Map.empty issued_tokens) ''user'' ''{}''\<rparr>"

definition validated :: world where
  "validated = logged_in\<lparr>wire := wire logged_in @ [Via_api (profile_call (localStorage logged_in))]\<rparr>"

text \<open>
  \<^verbatim>\<open>JSON.stringify\<close> and \<^verbatim>\<open>JSON.parse\<close> on the two values the examples serialise,
  \<^verbatim>\<open>null\<close> and the empty object.
\<close>

definition stringify_example :: "body \<Rightarrow> string option" where
  "stringify_example b = (case b of Nullish \<Rightarrow> Some ''null'' | Obj props \<Rightarrow> Some ''{}'')"

definition parse_example :: "string \<Rightarrow> body option" where
  "parse_example text =
     (if text = ''null'' then Some Nullish
      else if text = ''{}'' then Some (Obj Map.empty)
      else None)"

section \<open>The error handler, case by case\<close>

lemma retry_request_interceptor: "retry (request_interceptor st c) = retry c"
  by (simp add: request_interceptor_def split: option.splits)

lemma dispatchRequest_rejects:
  "dispatchRequest sent rep = Inl e \<Longrightarrow> \<exists>r. e = AxiosError sent r"
  by (auto simp: dispatchRequest_def split: reply.splits if_splits)

lemmas example_defs = list_units_def get_config_def post_config_def unauthorized_def
  server_error_def session_A1_def fresh_browser_def access_only_def
  server_expiring_def server_revoked_def server_going_down_def
  server_without_profile_def server_up_def initial_auth_def issued_tokens_def
  after_login_call_def logged_in_def validated_def stringify_example_def parse_example_def
  server_no_content_def server_revoking_def server_refreshing_then_down_def waiting_def

lemmas run_defs = api.simps on_rejected.simps request_interceptor_def dispatchRequest_def
  refresh_failed_def refresh_request_def status_401_def validateStatus_def truthy_def
  getItem_def setItem_def removeItem_def String_def Let_def

lemma on_rejected_pass:
  "\<not> (status_401 r \<and> \<not> retry c) \<Longrightarrow>
   on_rejected srv w (AxiosError c r) = (w, Inl (AxiosError c r))"
  by (cases "status_401 r"; cases "retry c"; simp add: on_rejected.simps)

text \<open>A call whose descriptor carries the flag goes out once and is settled as sent.\<close>

lemma api_retried:
  assumes "retry c"
  shows "api srv w c =
    (w\<lparr>wire := wire w @ [Via_api (request_interceptor (localStorage w) c)]\<rparr>,
     dispatchRequest (request_interceptor (localStorage w) c)
       (srv (wire w @ [Via_api (request_interceptor (localStorage w) c)])))"
proof -
  let ?sent = "request_interceptor (localStorage w) c"
  let ?w1 = "w\<lparr>wire := wire w @ [Via_api ?sent]\<rparr>"
  show ?thesis
  proof (cases "dispatchRequest ?sent (srv (wire ?w1))")
    case (Inr resp)
    then show ?thesis by (simp add: api.simps)
  next
    case (Inl e)
    then obtain r where e: "e = AxiosError ?sent r"
      using dispatchRequest_rejects by blast
    have "retry ?sent" using assms by (simp add: retry_request_interceptor)
    then have "on_rejected srv ?w1 e = (?w1, Inl e)"
      unfolding e by (simp add: on_rejected_pass)
    with Inl show ?thesis by (simp add: api.simps)
  qed
qed

lemma on_rejected_no_token:
  assumes "status_401 r" "\<not> retry c" "\<not> truthy (getItem (localStorage w) ''refresh_token'')"
  shows "on_rejected srv w (AxiosError c r) = (w, Inl (AxiosError (c\<lparr>retry := True\<rparr>) r))"
  using assms by (auto simp: on_rejected.simps Let_def split: option.splits)

lemma on_rejected_refresh_failed:
  assumes "status_401 r" "\<not> retry c"
    and "getItem (localStorage w) ''refresh_token'' = Some t" "t \<noteq> []"
    and "dispatchRequest (refresh_request t) (srv (wire w @ [Via_axios (refresh_request t)])) = Inl e"
  shows "on_rejected srv w (AxiosError c r) =
           refresh_failed (w\<lparr>wire := wire w @ [Via_axios (refresh_request t)]\<rparr>) e"
  using assms by (simp add: on_rejected.simps truthy_def)

lemma on_rejected_refresh_null:
  assumes "status_401 r" "\<not> retry c"
    and "getItem (localStorage w) ''refresh_token'' = Some t" "t \<noteq> []"
    and "dispatchRequest (refresh_request t) (srv (wire w @ [Via_axios (refresh_request t)])) = Inr resp"
    and "data resp = Nullish"
  shows "on_rejected srv w (AxiosError c r) =
           refresh_failed (w\<lparr>wire := wire w @ [Via_axios (refresh_request t)]\<rparr>) TypeError"
  using assms by (simp add: on_rejected.simps truthy_def)

lemma on_rejected_refreshed:
  assumes "status_401 r" "\<not> retry c"
    and "getItem (localStorage w) ''refresh_token'' = Some t" "t \<noteq> []"
    and "dispatchRequest (refresh_request t) (srv (wire w @ [Via_axios (refresh_request t)])) = Inr resp"
    and "data resp = Obj props"
  shows "on_rejected srv w (AxiosError c r) =
           api srv (w\<lparr>wire := wire w @ [Via_axios (refresh_request t)],
                      localStorage := setItem (localStorage w) ''access_token'' (String (props ''access''))\<rparr>)
             (retried c (String (props ''access'')))"
  using assms by (simp add: on_rejected.simps truthy_def Let_def retried_def)

text \<open>
  The request interceptor finds the token the handler has just stored and writes the
  header the handler has just written (or, for an empty token, writes nothing).
\<close>

lemma request_interceptor_again:
  "request_interceptor (setItem st ''access_token'' a) (retried c a) = retried c a"
  by (simp add: request_interceptor_def getItem_def setItem_def truthy_def retried_def)

lemma retry_retried: "retry (retried c a)"
  by (simp add: retried_def)

lemma on_rejected_refreshed_flat:
  assumes "status_401 r" "\<not> retry c"
    and "getItem (localStorage w) ''refresh_token'' = Some t" "t \<noteq> []"
    and "dispatchRequest (refresh_request t) (srv (wire w @ [Via_axios (refresh_request t)])) = Inr resp"
    and "data resp = Obj props"
  shows "on_rejected srv w (AxiosError c r) =
     (w\<lparr>wire := wire w @ [Via_axios (refresh_request t), Via_api (retried c (String (props ''access'')))],
        localStorage := setItem (localStorage w) ''access_token'' (String (props ''access''))\<rparr>,
      dispatchRequest (retried c (String (props ''access'')))
        (srv (wire w @ [Via_axios (refresh_request t), Via_api (retried c (String (props ''access'')))])))"
  using assms
  by (simp add: on_rejected_refreshed api_retried retry_retried request_interceptor_again)

lemma on_rejected_refresh_answered:
  assumes "status_401 r" "\<not> retry c"
    and "getItem (localStorage w) ''refresh_token'' = Some t" "t \<noteq> []"
    and "srv (wire w @ [Via_axios (refresh_request t)]) = Answer s (Obj props)"
    and "validateStatus s"
  shows "on_rejected srv w (AxiosError c r) =
     (w\<lparr>wire := wire w @ [Via_axios (refresh_request t), Via_api (retried c (String (props ''access'')))],
        localStorage := setItem (localStorage w) ''access_token'' (String (props ''access''))\<rparr>,
      dispatchRequest (retried c (String (props ''access'')))
        (srv (wire w @ [Via_axios (refresh_request t), Via_api (retried c (String (props ''access'')))])))"
proof -
  have d: "dispatchRequest (refresh_request t) (srv (wire w @ [Via_axios (refresh_request t)]))
             = Inr \<lparr>status = s, data = Obj props\<rparr>"
    using assms(5,6) by (simp add: dispatchRequest_def)
  have "data \<lparr>status = s, data = Obj props\<rparr> = Obj props" by simp
  with assms(1-4) d show ?thesis
    by (rule on_rejected_refreshed_flat [where props = props])
qed

text \<open>Every run of the handler is one of four.\<close>

lemma on_rejected_cases:
  obtains
    (pass) "on_rejected srv w e = (w, Inl e)"
  | (flagged) c r where "e = AxiosError c r" "status_401 r" "\<not> retry c"
      "\<not> truthy (getItem (localStorage w) ''refresh_token'')"
      "on_rejected srv w e = (w, Inl (AxiosError (c\<lparr>retry := True\<rparr>) r))"
  | (failed) c r t x where "e = AxiosError c r" "status_401 r" "\<not> retry c"
      "getItem (localStorage w) ''refresh_token'' = Some t" "t \<noteq> []"
      "on_rejected srv w e = refresh_failed (w\<lparr>wire := wire w @ [Via_axios (refresh_request t)]\<rparr>) x"
  | (refreshed) c r t a where "e = AxiosError c r" "status_401 r" "\<not> retry c"
      "getItem (localStorage w) ''refresh_token'' = Some t" "t \<noteq> []"
      "on_rejected srv w e =
        (w\<lparr>wire := wire w @ [Via_axios (refresh_request t), Via_api (retried c a)],
           localStorage := setItem (localStorage w) ''access_token'' a\<rparr>,
         dispatchRequest (retried c a)
           (srv (wire w @ [Via_axios (refresh_request t), Via_api (retried c a)])))"
proof (cases e)
  case (AxiosError c r)
  show ?thesis
  proof (cases "status_401 r \<and> \<not> retry c")
    case False
    then show ?thesis using pass AxiosError by (simp add: on_rejected_pass)
  next
    case True
    note go = this
    show ?thesis
    proof (cases "truthy (getItem (localStorage w) ''refresh_token'')")
      case False
      then show ?thesis using flagged AxiosError go by (simp add: on_rejected_no_token)
    next
      case True
      then obtain t where t: "getItem (localStorage w) ''refresh_token'' = Some t" "t \<noteq> []"
        by (auto simp: truthy_def split: option.splits)
      show ?thesis
      proof (cases "dispatchRequest (refresh_request t) (srv (wire w @ [Via_axios (refresh_request t)]))")
        case (Inl x)
        then show ?thesis using failed AxiosError go t
          by (simp add: on_rejected_refresh_failed)
      next
        case (Inr resp)
        show ?thesis
        proof (cases "data resp")
          case Nullish
          then show ?thesis using failed AxiosError go t Inr
            by (simp add: on_rejected_refresh_null)
        next
          case (Obj props)
          then show ?thesis using refreshed AxiosError go t Inr
            by (simp add: on_rejected_refreshed_flat)
        qed
      qed
    qed
  qed
next
  case TypeError
  then show ?thesis using pass by (simp add: on_rejected.simps)
next
  case SyntaxError
  then show ?thesis using pass by (simp add: on_rejected.simps)
qed

section \<open>What goes on the wire\<close>

lemma on_rejected_wire:
  "\<exists>ext. wire (fst (on_rejected srv w e)) = wire w @ ext \<and> refresh_calls ext \<le> 1
      \<and> length ext \<le> 2"
proof (cases rule: on_rejected_cases [of srv w e])
  case pass
  then show ?thesis by (simp add: refresh_calls_def)
next
  case (flagged c r)
  then have "wire (fst (on_rejected srv w e)) = wire w @ []" by simp
  then show ?thesis by (simp add: refresh_calls_def)
next
  case (failed c r t x)
  have "wire (fst (on_rejected srv w e)) = wire w @ [Via_axios (refresh_request t)]"
    using failed by (simp add: refresh_failed_def)
  moreover have "refresh_calls [Via_axios (refresh_request t)] \<le> 1"
    by (simp add: refresh_calls_def)
  ultimately show ?thesis by force
next
  case (refreshed c r t a)
  have "wire (fst (on_rejected srv w e))
          = wire w @ [Via_axios (refresh_request t), Via_api (retried c a)]"
    using refreshed by simp
  moreover have "refresh_calls [Via_axios (refresh_request t), Via_api (retried c a)] \<le> 1"
    by (simp add: refresh_calls_def)
  ultimately show ?thesis by force
qed

lemma api_wire:
  "\<exists>ext. wire (fst (api srv w c))
            = wire w @ Via_api (request_interceptor (localStorage w) c) # ext
      \<and> refresh_calls ext \<le> 1 \<and> length ext \<le> 2"
proof -
  let ?sent = "request_interceptor (localStorage w) c"
  let ?w1 = "w\<lparr>wire := wire w @ [Via_api ?sent]\<rparr>"
  show ?thesis
  proof (cases "dispatchRequest ?sent (srv (wire ?w1))")
    case (Inr resp)
    then have "wire (fst (api srv w c)) = wire w @ Via_api ?sent # []"
      by (simp add: api.simps)
    then show ?thesis by (simp add: refresh_calls_def)
  next
    case (Inl e)
    then have "api srv w c = on_rejected srv ?w1 e"
      by (simp add: api.simps)
    moreover obtain ext where "wire (fst (on_rejected srv ?w1 e)) = wire ?w1 @ ext"
      "refresh_calls ext \<le> 1" "length ext \<le> 2"
      using on_rejected_wire by blast
    ultimately show ?thesis by simp
  qed
qed

section \<open>The response interceptor\<close>

text \<open>
  C5.  A failure that is not an auth failure (a response with any status other than 401,
  or no response at all) leaves the error handler as it came: the handler rejects with
  the same error, and the world is the same, so nothing was written to \<^verbatim>\<open>localStorage\<close>
  and no call, in particular no refresh call, went out.
\<close>

theorem other_failures_pass_through:
  assumes "case r of None \<Rightarrow> True | Some resp \<Rightarrow> status resp \<noteq> 401"
  shows "on_rejected srv w (AxiosError c r) = (w, Inl (AxiosError c r))"
proof -
  from assms have "\<not> status_401 r"
    by (simp add: status_401_def split: option.splits)
  then show ?thesis by (simp add: on_rejected_pass)
qed

theorem other_failures_pass_through_witness:
  "(case Some server_error of None \<Rightarrow> True | Some resp \<Rightarrow> status resp \<noteq> 401) \<and>
   on_rejected server_expiring session_A1 (AxiosError list_units (Some server_error))
     = (session_A1, Inl (AxiosError list_units (Some server_error))) \<and>
   on_rejected server_expiring session_A1 (AxiosError list_units None)
     = (session_A1, Inl (AxiosError list_units None))"
  using other_failures_pass_through [of "Some server_error" server_expiring session_A1 list_units]
    other_failures_pass_through [of None server_expiring session_A1 list_units]
  by (simp add: server_error_def)

text \<open>
  C10.  A first 401 (flag unset) with no refresh token stored: the handler rejects with
  the error it received, whose descriptor now carries the flag the handler has set; the
  world is unchanged, so there was no refresh call, \<^verbatim>\<open>localStorage\<close> still holds what it
  held, and the address is not set to the login page.
\<close>

theorem no_refresh_token_rejects_original:
  assumes "status_401 r" "\<not> retry c"
    and "getItem (localStorage w) ''refresh_token'' = None"
  shows "on_rejected srv w (AxiosError c r) = (w, Inl (AxiosError (c\<lparr>retry := True\<rparr>) r))"
  using assms by (simp add: on_rejected_no_token truthy_def)

theorem no_refresh_token_rejects_original_witness:
  "status_401 (Some unauthorized) \<and> \<not> retry list_units \<and>
   getItem (localStorage access_only) ''refresh_token'' = None \<and>
   on_rejected server_expiring access_only (AxiosError list_units (Some unauthorized))
     = (access_only, Inl (AxiosError (list_units\<lparr>retry := True\<rparr>) (Some unauthorized)))"
  using no_refresh_token_rejects_original
          [of "Some unauthorized" list_units access_only server_expiring]
  by (simp add: status_401_def unauthorized_def list_units_def get_config_def access_only_def
        getItem_def)

text \<open>
  C2.  A 401 for a request whose flag is already set is rejected to the caller with the
  world unchanged, so without a refresh call.  One call through \<^verbatim>\<open>api\<close> puts at most one
  refresh call and at most three calls in all on the wire, whatever the server answers;
  \<open>api\<close> and \<open>on_rejected\<close> are total functions, so the handler cannot loop.
\<close>

theorem no_second_refresh:
  "(retry c \<longrightarrow> on_rejected srv w (AxiosError c r) = (w, Inl (AxiosError c r))) \<and>
   refresh_calls (wire (fst (api srv w c))) \<le> refresh_calls (wire w) + 1 \<and>
   length (wire (fst (api srv w c))) \<le> length (wire w) + 3"
proof -
  obtain ext where ext: "wire (fst (api srv w c))
      = wire w @ Via_api (request_interceptor (localStorage w) c) # ext"
    "refresh_calls ext \<le> 1" "length ext \<le> 2"
    using api_wire by blast
  have "refresh_calls (wire (fst (api srv w c))) = refresh_calls (wire w) + refresh_calls ext"
    unfolding ext(1) by (simp add: refresh_calls_def)
  with ext show ?thesis by (simp add: on_rejected_pass)
qed

theorem no_second_refresh_witness:
  "retry (retried list_units ''A2'') \<and>
   on_rejected server_expiring session_A1 (AxiosError (retried list_units ''A2'') (Some unauthorized))
     = (session_A1, Inl (AxiosError (retried list_units ''A2'') (Some unauthorized))) \<and>
   refresh_calls (wire (fst (api server_expiring session_A1 (retried list_units ''A2''))))
     \<le> refresh_calls (wire session_A1) + 1"
  using no_second_refresh [of "retried list_units ''A2''" server_expiring session_A1
          "Some unauthorized"]
  by (simp add: retried_def)

text \<open>
  C3.  A first 401 with a refresh token stored, and the refresh call fails (no answer, or
  an answer that is not 2xx): the handler rejects with the error of the refresh call, all
  three entries are gone from \<^verbatim>\<open>localStorage\<close>, the address is the login page, and the
  original request was not sent again.
\<close>

theorem refresh_failure_clears_session:
  assumes "status_401 r" "\<not> retry c"
    and "getItem (localStorage w) ''refresh_token'' = Some t" "t \<noteq> []"
    and "srv (wire w @ [Via_axios (refresh_request t)]) = No_answer \<or>
         (\<exists>s d. srv (wire w @ [Via_axios (refresh_request t)]) = Answer s d \<and> \<not> validateStatus s)"
  shows "\<exists>w' refreshError.
           on_rejected srv w (AxiosError c r) = (w', Inl refreshError) \<and>
           Inl refreshError = dispatchRequest (refresh_request t)
                                (srv (wire w @ [Via_axios (refresh_request t)])) \<and>
           getItem (localStorage w') ''access_token'' = None \<and>
           getItem (localStorage w') ''refresh_token'' = None \<and>
           getItem (localStorage w') ''user'' = None \<and>
           location_href w' = ''/login'' \<and>
           wire w' = wire w @ [Via_axios (refresh_request t)]"
proof -
  from assms(5) obtain e where
    e: "dispatchRequest (refresh_request t) (srv (wire w @ [Via_axios (refresh_request t)])) = Inl e"
    by (auto simp: dispatchRequest_def)
  have "on_rejected srv w (AxiosError c r)
          = refresh_failed (w\<lparr>wire := wire w @ [Via_axios (refresh_request t)]\<rparr>) e"
    using assms(1-4) e by (rule on_rejected_refresh_failed)
  then show ?thesis
    using e by (simp add: refresh_failed_def getItem_def removeItem_def)
qed

theorem refresh_failure_clears_session_witness:
  "status_401 (Some unauthorized) \<and> \<not> retry list_units \<and>
   getItem (localStorage session_A1) ''refresh_token'' = Some ''R1'' \<and> ''R1'' \<noteq> [] \<and>
   server_revoked (wire session_A1 @ [Via_axios (refresh_request ''R1'')]) = Answer 401 Nullish \<and>
   \<not> validateStatus 401 \<and>
   (\<exists>w' refreshError.
      on_rejected server_revoked session_A1 (AxiosError list_units (Some unauthorized))
        = (w', Inl refreshError) \<and>
      Inl refreshError = dispatchRequest (refresh_request ''R1'')
                           (server_revoked (wire session_A1 @ [Via_axios (refresh_request ''R1'')])) \<and>
      getItem (localStorage w') ''access_token'' = None \<and>
      getItem (localStorage w') ''refresh_token'' = None \<and>
      getItem (localStorage w') ''user'' = None \<and>
      location_href w' = ''/login'' \<and>
      wire w' = wire session_A1 @ [Via_axios (refresh_request ''R1'')])"
  using refresh_failure_clears_session
          [of "Some unauthorized" list_units session_A1 "''R1''" server_revoked]
  by (simp add: status_401_def unauthorized_def list_units_def get_config_def session_A1_def
        getItem_def server_revoked_def validateStatus_def)

text \<open>
  C8.  A refresh that succeeds writes the access token and nothing else: after the
  handler has run (retry included) the refresh token, the profile and every other entry
  of \<^verbatim>\<open>localStorage\<close> are what they were.
\<close>

theorem refresh_success_writes_access_token_only:
  assumes "status_401 r" "\<not> retry c"
    and "getItem (localStorage w) ''refresh_token'' = Some t" "t \<noteq> []"
    and "srv (wire w @ [Via_axios (refresh_request t)]) = Answer s (Obj props)"
    and "validateStatus s"
  shows "getItem (localStorage (fst (on_rejected srv w (AxiosError c r)))) ''access_token''
           = Some (String (props ''access'')) \<and>
         getItem (localStorage (fst (on_rejected srv w (AxiosError c r)))) ''refresh_token''
           = getItem (localStorage w) ''refresh_token'' \<and>
         getItem (localStorage (fst (on_rejected srv w (AxiosError c r)))) ''user''
           = getItem (localStorage w) ''user'' \<and>
         (\<forall>k. k \<noteq> ''access_token'' \<longrightarrow>
            getItem (localStorage (fst (on_rejected srv w (AxiosError c r)))) k
              = getItem (localStorage w) k)"
proof -
  have "localStorage (fst (on_rejected srv w (AxiosError c r)))
          = setItem (localStorage w) ''access_token'' (String (props ''access''))"
    using on_rejected_refresh_answered [where srv = srv, OF assms] by simp
  then show ?thesis by (simp add: getItem_def setItem_def)
qed

theorem refresh_success_writes_access_token_only_witness:
  "status_401 (Some unauthorized) \<and> \<not> retry list_units \<and>
   getItem (localStorage session_A1) ''refresh_token'' = Some ''R1'' \<and> ''R1'' \<noteq> [] \<and>
   server_expiring (wire session_A1 @ [Via_axios (refresh_request ''R1'')])
     = Answer 200 (Obj [''access'' \<mapsto> ''A2'']) \<and>
   validateStatus 200 \<and>
   getItem (localStorage (fst (on_rejected server_expiring session_A1
       (AxiosError list_units (Some unauthorized))))) ''access_token'' = Some ''A2'' \<and>
   getItem (localStorage (fst (on_rejected server_expiring session_A1
       (AxiosError list_units (Some unauthorized))))) ''refresh_token'' = Some ''R1'' \<and>
   getItem (localStorage (fst (on_rejected server_expiring session_A1
       (AxiosError list_units (Some unauthorized))))) ''user'' = Some ''{}''"
  using refresh_success_writes_access_token_only
          [of "Some unauthorized" list_units session_A1 "''R1''" server_expiring 200
              "[''access'' \<mapsto> ''A2'']"]
  by (simp add: status_401_def unauthorized_def list_units_def get_config_def session_A1_def
        getItem_def server_expiring_def validateStatus_def String_def)

text \<open>
  C1.  A first 401 (flag unset) while a refresh token is stored, a token being a non-empty
  string, and the refresh call issues a new access token \<open>a\<close> (it is answered 2xx with an
  object whose \<^verbatim>\<open>access\<close> field is \<open>a\<close>): the handler puts exactly two calls on the wire,
  the refresh call and one retry of the original request; the retry carries
  \<^verbatim>\<open>Authorization: Bearer a\<close>; \<open>a\<close> is the stored access token; and the handler settles as
  the retry does, whatever the server answers to it, a second 401 included.
\<close>

theorem refresh_then_single_retry:
  assumes "status_401 r" "\<not> retry c"
    and "getItem (localStorage w) ''refresh_token'' = Some t" "t \<noteq> []"
    and "srv (wire w @ [Via_axios (refresh_request t)]) = Answer s (Obj props)"
    and "validateStatus s" "props ''access'' = Some a"
  shows "on_rejected srv w (AxiosError c r) =
     (w\<lparr>wire := wire w @ [Via_axios (refresh_request t), Via_api (retried c a)],
        localStorage := setItem (localStorage w) ''access_token'' a\<rparr>,
      dispatchRequest (retried c a)
        (srv (wire w @ [Via_axios (refresh_request t), Via_api (retried c a)])))
     \<and> headers (retried c a) ''Authorization'' = Some (''Bearer '' @ a)
     \<and> refresh_calls (wire (fst (on_rejected srv w (AxiosError c r)))) = refresh_calls (wire w) + 1"
proof -
  have run: "on_rejected srv w (AxiosError c r) =
     (w\<lparr>wire := wire w @ [Via_axios (refresh_request t), Via_api (retried c a)],
        localStorage := setItem (localStorage w) ''access_token'' a\<rparr>,
      dispatchRequest (retried c a)
        (srv (wire w @ [Via_axios (refresh_request t), Via_api (retried c a)])))"
    using on_rejected_refresh_answered [where srv = srv, OF assms(1-6)] assms(7)
    by (simp add: String_def)
  have "refresh_calls (wire w @ [Via_axios (refresh_request t), Via_api (retried c a)])
          = refresh_calls (wire w) + 1"
    by (simp add: refresh_calls_def refresh_request_def)
  with run show ?thesis by (simp add: retried_def)
qed

theorem refresh_then_single_retry_witness:
  "status_401 (Some unauthorized) \<and> \<not> retry list_units \<and>
   getItem (localStorage session_A1) ''refresh_token'' = Some ''R1'' \<and> ''R1'' \<noteq> [] \<and>
   server_expiring (wire session_A1 @ [Via_axios (refresh_request ''R1'')])
     = Answer 200 (Obj [''access'' \<mapsto> ''A2'']) \<and>
   validateStatus 200 \<and> [''access'' \<mapsto> ''A2''] ''access'' = Some ''A2'' \<and>
   on_rejected server_expiring session_A1 (AxiosError list_units (Some unauthorized)) =
     (session_A1\<lparr>wire := [Via_axios (refresh_request ''R1''), Via_api (retried list_units ''A2'')],
        localStorage := setItem (localStorage session_A1) ''access_token'' ''A2''\<rparr>,
      Inl (AxiosError (retried list_units ''A2'') (Some unauthorized))) \<and>
   headers (retried list_units ''A2'') ''Authorization'' = Some ''Bearer A2''"
  using refresh_then_single_retry
          [of "Some unauthorized" list_units session_A1 "''R1''" server_expiring 200
              "[''access'' \<mapsto> ''A2'']" "''A2''"]
  by (simp add: status_401_def unauthorized_def list_units_def get_config_def session_A1_def
        getItem_def server_expiring_def validateStatus_def dispatchRequest_def)

section \<open>The request interceptor\<close>

lemma request_interceptor_token:
  "getItem st ''access_token'' = Some token \<Longrightarrow> token \<noteq> [] \<Longrightarrow>
   request_interceptor st c = c\<lparr>headers := (headers c)(''Authorization'' \<mapsto> ''Bearer '' @ token)\<rparr>"
  by (simp add: request_interceptor_def truthy_def)

lemma request_interceptor_no_token:
  "getItem st ''access_token'' = None \<or> getItem st ''access_token'' = Some [] \<Longrightarrow>
   request_interceptor st c = c"
  by (auto simp: request_interceptor_def truthy_def)

text \<open>
  C4.  If \<^verbatim>\<open>localStorage\<close> holds an access token, a token being a non-empty string, the
  interceptor returns the descriptor with \<^verbatim>\<open>Authorization: Bearer <token>\<close> set to exactly
  that token and nothing else changed; if no access token is stored (no entry, or an
  empty one) it returns the descriptor as it is.  What the interceptor returns is what
  \<open>api\<close> puts on the wire for the request.
\<close>

theorem bearer_header_attached:
  "(getItem (localStorage w) ''access_token'' = Some token \<and> token \<noteq> [] \<longrightarrow>
      request_interceptor (localStorage w) c
        = c\<lparr>headers := (headers c)(''Authorization'' \<mapsto> ''Bearer '' @ token)\<rparr>) \<and>
   (getItem (localStorage w) ''access_token'' = None \<or>
    getItem (localStorage w) ''access_token'' = Some [] \<longrightarrow>
      request_interceptor (localStorage w) c = c) \<and>
   (\<exists>rest. wire (fst (api srv w c))
              = wire w @ Via_api (request_interceptor (localStorage w) c) # rest)"
proof -
  obtain ext where "wire (fst (api srv w c))
      = wire w @ Via_api (request_interceptor (localStorage w) c) # ext"
    using api_wire by blast
  then show ?thesis
    using request_interceptor_token [of "localStorage w" token c]
      request_interceptor_no_token [of "localStorage w" c]
    by blast
qed

theorem bearer_header_attached_witness:
  "getItem (localStorage session_A1) ''access_token'' = Some ''A1'' \<and> ''A1'' \<noteq> [] \<and>
   request_interceptor (localStorage session_A1) list_units
     = list_units\<lparr>headers := (headers list_units)(''Authorization'' \<mapsto> ''Bearer A1'')\<rparr> \<and>
   getItem (localStorage fresh_browser) ''access_token'' = None \<and>
   request_interceptor (localStorage fresh_browser) list_units = list_units"
  using bearer_header_attached [of session_A1 "''A1''" list_units server_expiring]
    bearer_header_attached [of fresh_browser "''A1''" list_units server_expiring]
  by (simp add: session_A1_def fresh_browser_def getItem_def)

section \<open>Example runs\<close>


lemma login_server_going_down:
  "login stringify_example server_going_down fresh_browser ''alice'' ''secret''
     = (logged_in, Inr (Obj Map.empty))"
  by (simp add: example_defs run_defs login_def api_post_def api_get_def
        login_call_def profile_call_def store_tokens_def)

lemma getCurrentUser_server_up:
  "getCurrentUser server_up logged_in = (validated, Inr (Obj Map.empty))"
  by (simp add: example_defs run_defs api_get_def getCurrentUser_def
        login_call_def profile_call_def store_tokens_def)

lemma getCurrentUser_server_going_down:
  "getCurrentUser server_going_down logged_in
     = (validated, Inl (AxiosError (profile_call (localStorage logged_in)) (Some server_error)))"
  by (simp add: example_defs run_defs api_get_def getCurrentUser_def
        login_call_def profile_call_def store_tokens_def)

lemma logged_in_store:
  "getItem (localStorage logged_in) ''access_token'' = Some ''A1''"
  "getItem (localStorage logged_in) ''refresh_token'' = Some ''R1''"
  "getItem (localStorage logged_in) ''user'' = Some ''{}''"
  by (simp_all add: logged_in_def issued_tokens_def store_tokens_def getItem_def setItem_def
        String_def)

section \<open>Writes to the store\<close>













lemma on_rejected_split:
  "on_rejected srv w e =
     (case on_rejected_start w e of
        (w1, Settled res) \<Rightarrow> (w1, res)
      | (w1, Suspended p) \<Rightarrow> on_rejected_resume srv w1 p (srv (wire w1)))"
  by (cases e)
     (simp_all add: on_rejected.simps on_rejected_start_def on_rejected_resume_def Let_def
        split: option.splits)



section \<open>The session pairing\<close>




section \<open>Login\<close>

lemma api_success:
  assumes "dispatchRequest (request_interceptor (localStorage w) c)
             (srv (wire w @ [Via_api (request_interceptor (localStorage w) c)])) = Inr resp"
  shows "api srv w c =
           (w\<lparr>wire := wire w @ [Via_api (request_interceptor (localStorage w) c)]\<rparr>, Inr resp)"
  using assms by (simp add: api.simps)


lemma dispatchRequest_ok:
  "validateStatus s \<Longrightarrow> dispatchRequest sent (Answer s d) = Inr \<lparr>status = s, data = d\<rparr>"
  by (simp add: dispatchRequest_def)


lemma login_profile_call:
  assumes "api_post srv w ''/auth/login/'' [(''username'', u), (''password'', p)] = (w1, Inr resp)"
    and "data resp = Obj props"
    and "api_get srv (w1\<lparr>localStorage := store_tokens (localStorage w1) props\<rparr>) ''/auth/user/''
           = (w3, res)"
  shows "login stringify srv w u p =
           (case res of
              Inl e \<Rightarrow> (w3, Inl e)
            | Inr userResponse \<Rightarrow>
                (w3\<lparr>localStorage := setItem (localStorage w3) ''user''
                                        (String (stringify (data userResponse)))\<rparr>,
                 Inr (data userResponse)))"
  using assms by (simp add: login_def store_tokens_def Let_def split: sum.splits)




















section \<open>Saving and restoring a session\<close>

lemma checkAuth_never_throws: "snd (checkAuth stringify parse srv wa) = Inr ()"
  by (simp add: checkAuth_def split: prod.splits sum.splits)

lemma checkAuth_nothing_stored:
  assumes "\<not> truthy (getItem (localStorage w) ''access_token'') \<or>
           \<not> truthy (getItem (localStorage w) ''user'')"
  shows "checkAuth stringify parse srv (w, a) = ((w, a\<lparr>loading := False\<rparr>), Inr ())"
  using assms
  by (auto simp: checkAuth_def checkAuth_try_def Let_def split: option.splits)

lemma checkAuth_unparsable:
  assumes "truthy (getItem (localStorage w) ''access_token'')"
    and "getItem (localStorage w) ''user'' = Some text" "text \<noteq> []"
    and "parse text = None"
  shows "checkAuth stringify parse srv (w, a) = ((w, a\<lparr>loading := False\<rparr>), Inr ())"
  using assms
  by (simp add: checkAuth_def checkAuth_try_def Let_def truthy_def)

lemma checkAuth_validated:
  assumes "truthy (getItem (localStorage w) ''access_token'')"
    and "getItem (localStorage w) ''user'' = Some text" "text \<noteq> []"
    and "parse text = Some parsed"
    and "getCurrentUser srv w = (w1, Inr currentUser)"
  shows "checkAuth stringify parse srv (w, a) =
           ((w1\<lparr>localStorage := setItem (localStorage w1) ''user''
                                    (String (stringify currentUser))\<rparr>,
             a\<lparr>user := currentUser, loading := False\<rparr>), Inr ())"
  using assms
  by (simp add: checkAuth_def checkAuth_try_def Let_def truthy_def)

lemma checkAuth_validation_failed:
  assumes "truthy (getItem (localStorage w) ''access_token'')"
    and "getItem (localStorage w) ''user'' = Some text" "text \<noteq> []"
    and "parse text = Some parsed"
    and "getCurrentUser srv w = (w1, Inl e)"
  shows "checkAuth stringify parse srv (w, a) =
           ((logout w1, a\<lparr>user := Nullish, loading := False\<rparr>), Inr ())"
  using assms
  by (simp add: checkAuth_def checkAuth_try_def Let_def truthy_def provider_logout_def)

lemma login_both_calls_succeed:
  assumes "srv (wire w @ [Via_api (login_call (localStorage w) u p)]) = Answer s1 (Obj props)"
    and "validateStatus s1"
    and "srv (wire w @ [Via_api (login_call (localStorage w) u p),
                        Via_api (profile_call (store_tokens (localStorage w) props))])
           = Answer s2 prof"
    and "validateStatus s2"
  shows "login stringify srv w u p =
           (w\<lparr>wire := wire w @ [Via_api (login_call (localStorage w) u p),
                                Via_api (profile_call (store_tokens (localStorage w) props))],
              localStorage := setItem (store_tokens (localStorage w) props) ''user''
                                (String (stringify prof))\<rparr>,
            Inr prof)"
proof -
  let ?c1 = "login_call (localStorage w) u p"
  let ?w1 = "w\<lparr>wire := wire w @ [Via_api ?c1]\<rparr>"
  let ?w2 = "?w1\<lparr>localStorage := store_tokens (localStorage ?w1) props\<rparr>"
  let ?c2 = "profile_call (store_tokens (localStorage w) props)"
  have 1: "api_post srv w ''/auth/login/'' [(''username'', u), (''password'', p)]
             = (?w1, Inr \<lparr>status = s1, data = Obj props\<rparr>)"
    unfolding api_post_def
    using assms(1,2)
    by (intro api_success [THEN trans]) (simp_all add: login_call_def dispatchRequest_ok)
  have 2: "api_get srv ?w2 ''/auth/user/''
             = (?w2\<lparr>wire := wire ?w2 @ [Via_api ?c2]\<rparr>, Inr \<lparr>status = s2, data = prof\<rparr>)"
    unfolding api_get_def
    using assms(3,4)
    by (intro api_success [THEN trans]) (simp_all add: profile_call_def dispatchRequest_ok)
  have "data \<lparr>status = s1, data = Obj props\<rparr> = Obj props" by simp
  from login_profile_call [OF 1 this 2, of stringify] show ?thesis by simp
qed

text \<open>
  C7, as the code has it.  The save is \<^verbatim>\<open>login\<close>: when its two calls succeed, the three
  entries read back exactly as written, the tokens as strings and the profile serialised.
  The load is \<^verbatim>\<open>checkAuth\<close>.  It never throws.  With no access token or no profile in
  the store it changes nothing but \<^verbatim>\<open>loading\<close> and sets no user.  With a non-empty access
  token and a non-empty profile that parses, it asks the server for the current user:
  it ends with the profile the server returns, as the user and as the stored profile;
  and when that call fails it removes all three entries and leaves the user
  \<^verbatim>\<open>null\<close>.
\<close>

theorem session_written_and_restored:
  "(srv (wire w @ [Via_api (login_call (localStorage w) u p)]) = Answer s1 (Obj props) \<and>
    validateStatus s1 \<and>
    srv (wire w @ [Via_api (login_call (localStorage w) u p),
                   Via_api (profile_call (store_tokens (localStorage w) props))])
      = Answer s2 prof \<and>
    validateStatus s2 \<longrightarrow>
      (\<exists>w'. login stringify srv w u p = (w', Inr prof) \<and>
            getItem (localStorage w') ''access_token'' = Some (String (props ''access'')) \<and>
            getItem (localStorage w') ''refresh_token'' = Some (String (props ''refresh'')) \<and>
            getItem (localStorage w') ''user'' = Some (String (stringify prof)))) \<and>
   snd (checkAuth stringify parse srv (w, a)) = Inr () \<and>
   (getItem (localStorage w) ''access_token'' = None \<or> getItem (localStorage w) ''user'' = None
      \<longrightarrow> checkAuth stringify parse srv (w, a) = ((w, a\<lparr>loading := False\<rparr>), Inr ())) \<and>
   (truthy (getItem (localStorage w) ''access_token'') \<and>
    getItem (localStorage w) ''user'' = Some stored \<and> stored \<noteq> [] \<and> parse stored = Some parsed
      \<longrightarrow>
      (getCurrentUser srv w = (w1, Inr currentUser) \<longrightarrow>
         checkAuth stringify parse srv (w, a) =
           ((w1\<lparr>localStorage := setItem (localStorage w1) ''user''
                                    (String (stringify currentUser))\<rparr>,
             a\<lparr>user := currentUser, loading := False\<rparr>), Inr ())) \<and>
      (getCurrentUser srv w = (w1, Inl e) \<longrightarrow>
         checkAuth stringify parse srv (w, a) =
           ((logout w1, a\<lparr>user := Nullish, loading := False\<rparr>), Inr ()) \<and>
         getItem (localStorage (logout w1)) ''access_token'' = None \<and>
         getItem (localStorage (logout w1)) ''refresh_token'' = None \<and>
         getItem (localStorage (logout w1)) ''user'' = None))"
proof -
  have A: "srv (wire w @ [Via_api (login_call (localStorage w) u p)]) = Answer s1 (Obj props) \<and>
    validateStatus s1 \<and>
    srv (wire w @ [Via_api (login_call (localStorage w) u p),
                   Via_api (profile_call (store_tokens (localStorage w) props))])
      = Answer s2 prof \<and>
    validateStatus s2 \<longrightarrow>
      (\<exists>w'. login stringify srv w u p = (w', Inr prof) \<and>
            getItem (localStorage w') ''access_token'' = Some (String (props ''access'')) \<and>
            getItem (localStorage w') ''refresh_token'' = Some (String (props ''refresh'')) \<and>
            getItem (localStorage w') ''user'' = Some (String (stringify prof)))"
  proof (intro impI, elim conjE)
    assume "srv (wire w @ [Via_api (login_call (localStorage w) u p)]) = Answer s1 (Obj props)"
      and "validateStatus s1"
      and "srv (wire w @ [Via_api (login_call (localStorage w) u p),
                          Via_api (profile_call (store_tokens (localStorage w) props))])
             = Answer s2 prof"
      and "validateStatus s2"
    then have "login stringify srv w u p =
           (w\<lparr>wire := wire w @ [Via_api (login_call (localStorage w) u p),
                                Via_api (profile_call (store_tokens (localStorage w) props))],
              localStorage := setItem (store_tokens (localStorage w) props) ''user''
                                (String (stringify prof))\<rparr>,
            Inr prof)"
      by (rule login_both_calls_succeed)
    then show "\<exists>w'. login stringify srv w u p = (w', Inr prof) \<and>
            getItem (localStorage w') ''access_token'' = Some (String (props ''access'')) \<and>
            getItem (localStorage w') ''refresh_token'' = Some (String (props ''refresh'')) \<and>
            getItem (localStorage w') ''user'' = Some (String (stringify prof))"
      by (simp add: store_tokens_def getItem_def setItem_def)
  qed
  have B: "snd (checkAuth stringify parse srv (w, a)) = Inr ()"
    by (rule checkAuth_never_throws)
  have C: "getItem (localStorage w) ''access_token'' = None \<or> getItem (localStorage w) ''user'' = None
      \<longrightarrow> checkAuth stringify parse srv (w, a) = ((w, a\<lparr>loading := False\<rparr>), Inr ())"
  proof
    assume "getItem (localStorage w) ''access_token'' = None \<or>
            getItem (localStorage w) ''user'' = None"
    then have "\<not> truthy (getItem (localStorage w) ''access_token'') \<or>
               \<not> truthy (getItem (localStorage w) ''user'')"
      by (auto simp: truthy_def)
    then show "checkAuth stringify parse srv (w, a) = ((w, a\<lparr>loading := False\<rparr>), Inr ())"
      by (rule checkAuth_nothing_stored)
  qed
  have cleared:
    "getItem (localStorage (logout w1)) ''access_token'' = None \<and>
     getItem (localStorage (logout w1)) ''refresh_token'' = None \<and>
     getItem (localStorage (logout w1)) ''user'' = None"
    by (simp add: logout_def getItem_def removeItem_def)
  have D: "truthy (getItem (localStorage w) ''access_token'') \<and>
    getItem (localStorage w) ''user'' = Some stored \<and> stored \<noteq> [] \<and> parse stored = Some parsed
      \<longrightarrow>
      (getCurrentUser srv w = (w1, Inr currentUser) \<longrightarrow>
         checkAuth stringify parse srv (w, a) =
           ((w1\<lparr>localStorage := setItem (localStorage w1) ''user''
                                    (String (stringify currentUser))\<rparr>,
             a\<lparr>user := currentUser, loading := False\<rparr>), Inr ())) \<and>
      (getCurrentUser srv w = (w1, Inl e) \<longrightarrow>
         checkAuth stringify parse srv (w, a) =
           ((logout w1, a\<lparr>user := Nullish, loading := False\<rparr>), Inr ()) \<and>
         getItem (localStorage (logout w1)) ''access_token'' = None \<and>
         getItem (localStorage (logout w1)) ''refresh_token'' = None \<and>
         getItem (localStorage (logout w1)) ''user'' = None)"
    using cleared checkAuth_validated [of w stored parse parsed srv w1 currentUser stringify a]
      checkAuth_validation_failed [of w stored parse parsed srv w1 e stringify a]
    by blast
  show ?thesis
    by (rule conjI [OF A conjI [OF B conjI [OF C D]]])
qed

theorem session_written_and_restored_witness:
  "server_up (wire fresh_browser @ [Via_api (login_call (localStorage fresh_browser) ''alice'' ''secret'')])
     = Answer 200 (Obj issued_tokens) \<and>
   validateStatus 200 \<and>
   server_up (wire fresh_browser @
       [Via_api (login_call (localStorage fresh_browser) ''alice'' ''secret''),
        Via_api (profile_call (store_tokens (localStorage fresh_browser) issued_tokens))])
     = Answer 200 (Obj Map.empty) \<and>
   (\<exists>w'. login stringify_example server_up fresh_browser ''alice'' ''secret''
            = (w', Inr (Obj Map.empty)) \<and>
         getItem (localStorage w') ''access_token'' = Some ''A1'' \<and>
         getItem (localStorage w') ''refresh_token'' = Some ''R1'' \<and>
         getItem (localStorage w') ''user'' = Some ''{}'') \<and>
   getItem (localStorage fresh_browser) ''access_token'' = None \<and>
   checkAuth stringify_example parse_example server_up (fresh_browser, initial_auth)
     = ((fresh_browser, initial_auth\<lparr>loading := False\<rparr>), Inr ()) \<and>
   truthy (getItem (localStorage logged_in) ''access_token'') \<and>
   getItem (localStorage logged_in) ''user'' = Some ''{}'' \<and>
   ''{}'' \<noteq> [] \<and> parse_example ''{}'' = Some (Obj Map.empty) \<and>
   getCurrentUser server_up logged_in = (validated, Inr (Obj Map.empty)) \<and>
   checkAuth stringify_example parse_example server_up (logged_in, initial_auth)
     = ((validated\<lparr>localStorage := setItem (localStorage validated) ''user'' ''{}''\<rparr>,
         initial_auth\<lparr>user := Obj Map.empty, loading := False\<rparr>), Inr ())"
proof -
  have h1: "server_up (wire fresh_browser @
                [Via_api (login_call (localStorage fresh_browser) ''alice'' ''secret'')])
              = Answer 200 (Obj issued_tokens)"
    by (simp add: server_up_def fresh_browser_def issued_tokens_def)
  have h2: "validateStatus 200"
    by (simp add: validateStatus_def)
  have h3: "server_up (wire fresh_browser @
       [Via_api (login_call (localStorage fresh_browser) ''alice'' ''secret''),
        Via_api (profile_call (store_tokens (localStorage fresh_browser) issued_tokens))])
     = Answer 200 (Obj Map.empty)"
    by (simp add: server_up_def fresh_browser_def)
  have h4: "getItem (localStorage fresh_browser) ''access_token'' = None"
    by (simp add: fresh_browser_def getItem_def)
  have h5: "truthy (getItem (localStorage logged_in) ''access_token'')"
    by (simp add: logged_in_store truthy_def)
  have h6: "''{}'' \<noteq> []" "parse_example ''{}'' = Some (Obj Map.empty)"
    by (simp_all add: parse_example_def)
  have s: "String (issued_tokens ''access'') = ''A1''" "String (issued_tokens ''refresh'') = ''R1''"
    "String (stringify_example (Obj Map.empty)) = ''{}''"
    by (simp_all add: issued_tokens_def String_def stringify_example_def)
  note fresh = session_written_and_restored
      [where srv = server_up and w = fresh_browser and u = "''alice''" and p = "''secret''"
         and ?s1.0 = 200 and props = issued_tokens and ?s2.0 = 200 and prof = "Obj Map.empty"
         and stringify = stringify_example and parse = parse_example and a = initial_auth]
  note restored = session_written_and_restored
      [where srv = server_up and w = logged_in and stringify = stringify_example
         and parse = parse_example and a = initial_auth and stored = "''{}''"
         and parsed = "Obj Map.empty" and ?w1.0 = validated and currentUser = "Obj Map.empty"]
  have c1: "\<exists>w'. login stringify_example server_up fresh_browser ''alice'' ''secret''
            = (w', Inr (Obj Map.empty)) \<and>
         getItem (localStorage w') ''access_token'' = Some ''A1'' \<and>
         getItem (localStorage w') ''refresh_token'' = Some ''R1'' \<and>
         getItem (localStorage w') ''user'' = Some ''{}''"
    using fresh h1 h2 h3 unfolding s by blast
  have c2: "checkAuth stringify_example parse_example server_up (fresh_browser, initial_auth)
     = ((fresh_browser, initial_auth\<lparr>loading := False\<rparr>), Inr ())"
    using fresh h4 by blast
  have c3: "checkAuth stringify_example parse_example server_up (logged_in, initial_auth)
     = ((validated\<lparr>localStorage := setItem (localStorage validated) ''user'' ''{}''\<rparr>,
         initial_auth\<lparr>user := Obj Map.empty, loading := False\<rparr>), Inr ())"
    using restored h5 h6 logged_in_store(3) getCurrentUser_server_up unfolding s by blast
  show ?thesis
    using h1 h2 h3 h4 h5 h6 c1 c2 c3 logged_in_store(3) getCurrentUser_server_up
    by (intro conjI)
qed

text \<open>
  C7 as stated fails: \<^verbatim>\<open>alice\<close> logs in, the three entries are written, and the session
  restore that follows finds the server out of order; it ends with no user and with all
  three entries removed, not with the triple that was written.
\<close>

theorem session_written_and_restored_counterexample:
  "login stringify_example server_going_down fresh_browser ''alice'' ''secret''
     = (logged_in, Inr (Obj Map.empty)) \<and>
   getItem (localStorage logged_in) ''access_token'' = Some ''A1'' \<and>
   getItem (localStorage logged_in) ''refresh_token'' = Some ''R1'' \<and>
   getItem (localStorage logged_in) ''user'' = Some ''{}'' \<and>
   user (snd (fst (checkAuth stringify_example parse_example server_going_down
                     (logged_in, initial_auth)))) = Nullish \<and>
   getItem (localStorage (fst (fst (checkAuth stringify_example parse_example server_going_down
                     (logged_in, initial_auth))))) ''access_token'' = None \<and>
   getItem (localStorage (fst (fst (checkAuth stringify_example parse_example server_going_down
                     (logged_in, initial_auth))))) ''refresh_token'' = None \<and>
   getItem (localStorage (fst (fst (checkAuth stringify_example parse_example server_going_down
                     (logged_in, initial_auth))))) ''user'' = None"
proof -
  have "truthy (getItem (localStorage logged_in) ''access_token'')"
    by (simp add: logged_in_store truthy_def)
  moreover have "''{}'' \<noteq> []" "parse_example ''{}'' = Some (Obj Map.empty)"
    by (simp_all add: parse_example_def)
  ultimately have "checkAuth stringify_example parse_example server_going_down
                     (logged_in, initial_auth)
      = ((logout validated, initial_auth\<lparr>user := Nullish, loading := False\<rparr>), Inr ())"
    using logged_in_store(3) getCurrentUser_server_going_down
    by (intro checkAuth_validation_failed)
  then show ?thesis
    using login_server_going_down logged_in_store
    by (simp add: logout_def getItem_def removeItem_def)
qed

section \<open>Stores without an empty token entry\<close>

text \<open>
  A token entry holding the empty string is in the store and yet falsy to the code.  The
  program never makes one by itself: from a store without such an entry, against a server
  that issues no empty token, the error handler, every call through \<open>api\<close> and \<^verbatim>\<open>login\<close>
  end in a store without one.  On these stores a token is stored exactly when the code's
  test finds one.
\<close>

lemma dispatchRequest_resolved:
  "dispatchRequest sent rep = Inr resp \<Longrightarrow> rep = Answer (status resp) (data resp)"
  by (auto simp: dispatchRequest_def split: reply.splits if_splits)

lemma no_empty_entry_cleared: "no_empty_entry (clear_session st)"
  by (simp add: no_empty_entry_def clear_session_def getItem_def removeItem_def)

lemma on_rejected_no_empty_entry:
  assumes "no_empty_entry (localStorage w)"
    and "\<And>log s props. srv log = Answer s (Obj props) \<Longrightarrow> props ''access'' \<noteq> Some []"
  shows "no_empty_entry (localStorage (fst (on_rejected srv w e)))"
proof (cases "on_rejected_start w e")
  case (Pair w1 st)
  have w1: "localStorage w1 = localStorage w"
    using Pair
    by (cases e) (auto simp: on_rejected_start_def Let_def split: option.splits if_splits)
  show ?thesis
  proof (cases st)
    case (Settled res)
    with Pair w1 assms(1) show ?thesis by (simp add: on_rejected_split)
  next
    case (Suspended p)
    obtain c t where p: "p = Refreshing c t" by (cases p)
    have run: "on_rejected srv w e = on_rejected_resume srv w1 p (srv (wire w1))"
      using Pair Suspended by (simp add: on_rejected_split)
    have c: "retry c"
      using Pair Suspended p
      by (cases e) (auto simp: on_rejected_start_def Let_def split: option.splits if_splits)
    show ?thesis
    proof (cases "dispatchRequest (refresh_request t) (srv (wire w1))")
      case (Inl x)
      then show ?thesis
        using no_empty_entry_cleared [of "localStorage w1"]
        by (simp add: run p on_rejected_resume_def refresh_failed_def clear_session_def)
    next
      case (Inr resp)
      show ?thesis
      proof (cases "data resp")
        case Nullish
        with Inr show ?thesis
          using no_empty_entry_cleared [of "localStorage w1"]
          by (simp add: run p on_rejected_resume_def refresh_failed_def clear_session_def)
      next
        case (Obj props)
        from Inr have "srv (wire w1) = Answer (status resp) (data resp)"
          by (rule dispatchRequest_resolved)
        with Obj have "props ''access'' \<noteq> Some []" using assms(2) by simp
        then have a: "String (props ''access'') \<noteq> []"
          by (auto simp: String_def split: option.splits)
        let ?w2 = "w1\<lparr>localStorage := setItem (localStorage w1) ''access_token'' (String (props ''access''))\<rparr>"
        let ?c2 = "c\<lparr>headers := (headers c)(''Authorization'' \<mapsto> ''Bearer '' @ String (props ''access''))\<rparr>"
        have "retry ?c2" using c by simp
        then have "localStorage (fst (api srv ?w2 ?c2)) = localStorage ?w2"
          by (simp add: api_retried)
        moreover have "no_empty_entry (localStorage ?w2)"
          using assms(1) a w1 by (simp add: no_empty_entry_def getItem_def setItem_def)
        ultimately show ?thesis
          using Inr Obj by (simp add: run p on_rejected_resume_def Let_def)
      qed
    qed
  qed
qed

lemma api_no_empty_entry:
  assumes "no_empty_entry (localStorage w)"
    and "\<And>log s props. srv log = Answer s (Obj props) \<Longrightarrow> props ''access'' \<noteq> Some []"
  shows "no_empty_entry (localStorage (fst (api srv w c)))"
proof -
  let ?sent = "request_interceptor (localStorage w) c"
  let ?w1 = "w\<lparr>wire := wire w @ [Via_api ?sent]\<rparr>"
  show ?thesis
  proof (cases "dispatchRequest ?sent (srv (wire ?w1))")
    case (Inr resp)
    with assms(1) show ?thesis by (simp add: api.simps)
  next
    case (Inl e)
    then have "api srv w c = on_rejected srv ?w1 e" by (simp add: api.simps)
    moreover have "no_empty_entry (localStorage (fst (on_rejected srv ?w1 e)))"
      using assms by (intro on_rejected_no_empty_entry) simp_all
    ultimately show ?thesis by simp
  qed
qed


lemma on_rejected_resolved_reply:
  assumes "on_rejected srv w e = (w', Inr resp)"
  shows "\<exists>log. srv log = Answer (status resp) (data resp)"
proof (cases rule: on_rejected_cases [of srv w e])
  case pass
  with assms show ?thesis by simp
next
  case (flagged c r)
  with assms show ?thesis by simp
next
  case (failed c r t x)
  with assms show ?thesis by (simp add: refresh_failed_def)
next
  case (refreshed c r t a)
  with assms have "dispatchRequest (retried c a)
      (srv (wire w @ [Via_axios (refresh_request t), Via_api (retried c a)])) = Inr resp"
    by simp
  from dispatchRequest_resolved [OF this] show ?thesis by blast
qed

lemma api_resolved_reply:
  assumes "api srv w c = (w', Inr resp)"
  shows "\<exists>log. srv log = Answer (status resp) (data resp)"
proof -
  let ?sent = "request_interceptor (localStorage w) c"
  let ?w1 = "w\<lparr>wire := wire w @ [Via_api ?sent]\<rparr>"
  show ?thesis
  proof (cases "dispatchRequest ?sent (srv (wire ?w1))")
    case (Inr resp')
    with assms have "resp' = resp" by (simp add: api.simps)
    with Inr dispatchRequest_resolved show ?thesis by blast
  next
    case (Inl e)
    with assms have "on_rejected srv ?w1 e = (w', Inr resp)" by (simp add: api.simps)
    then show ?thesis by (rule on_rejected_resolved_reply)
  qed
qed

lemma login_no_empty_entry:
  assumes "no_empty_entry (localStorage w)"
    and "\<And>log s props. srv log = Answer s (Obj props) \<Longrightarrow>
           props ''access'' \<noteq> Some [] \<and> props ''refresh'' \<noteq> Some []"
  shows "no_empty_entry (localStorage (fst (login stringify srv w u p)))"
proof -
  have honest: "\<And>log s props. srv log = Answer s (Obj props) \<Longrightarrow> props ''access'' \<noteq> Some []"
    using assms(2) by blast
  obtain w1 res1 where a1:
    "api_post srv w ''/auth/login/'' [(''username'', u), (''password'', p)] = (w1, res1)"
    by (cases "api_post srv w ''/auth/login/'' [(''username'', u), (''password'', p)]")
  have w1: "no_empty_entry (localStorage w1)"
    using api_no_empty_entry
            [where srv = srv and w = w
               and c = "post_config ''/auth/login/'' [(''username'', u), (''password'', p)]"]
          assms(1) honest a1
    by (simp add: api_post_def)
  show ?thesis
  proof (cases res1)
    case (Inl e)
    with a1 w1 show ?thesis by (simp add: login_def)
  next
    case (Inr resp)
    show ?thesis
    proof (cases "data resp")
      case Nullish
      with a1 w1 Inr show ?thesis by (simp add: login_def)
    next
      case (Obj props)
      let ?w2 = "w1\<lparr>localStorage := store_tokens (localStorage w1) props\<rparr>"
      obtain w3 res3 where a3: "api_get srv ?w2 ''/auth/user/'' = (w3, res3)"
        by (cases "api_get srv ?w2 ''/auth/user/''")
      from a1 Inr have "\<exists>log. srv log = Answer (status resp) (data resp)"
        unfolding api_post_def by (intro api_resolved_reply) simp
      with Obj assms(2) have "props ''access'' \<noteq> Some [] \<and> props ''refresh'' \<noteq> Some []"
        by auto
      then have "no_empty_entry (localStorage ?w2)"
        by (auto simp: no_empty_entry_def store_tokens_def getItem_def setItem_def String_def
              split: option.splits)
      then have "no_empty_entry (localStorage w3)"
        using api_no_empty_entry [where srv = srv and w = ?w2 and c = "get_config ''/auth/user/''"]
          honest a3
        by (simp add: api_get_def)
      then have "no_empty_entry (localStorage (fst (case res3 of
              Inl e \<Rightarrow> (w3, Inl e)
            | Inr userResponse \<Rightarrow>
                (w3\<lparr>localStorage := setItem (localStorage w3) ''user''
                                        (String (stringify (data userResponse)))\<rparr>,
                 Inr (data userResponse)))))"
        by (cases res3) (simp_all add: no_empty_entry_def getItem_def setItem_def)
      with login_profile_call [OF a1 [unfolded Inr] Obj a3, of stringify] show ?thesis by simp
    qed
  qed
qed

end
